theory Spec2Isabelle
  imports Main
begin

section \<open>Python values\<close>

text \<open>
  The worker moves JSON-shaped Python objects around: the job input, the payloads handed
  to the OpenAI client and the dictionaries the client's objects turn into. They are
  modelled by one datatype. A dictionary is an association list in insertion order; a
  lookup takes the first binding of a key.

  A Python \<^verbatim>\<open>str\<close> is a sequence of Unicode code points. It is modelled by the list of
  the bytes of its UTF-8 encoding, so \<open>''hi''\<close> is the string \<^verbatim>\<open>"hi"\<close> and a code point
  beyond ASCII takes two to four bytes. Two strings are equal exactly when their encodings
  are, and the empty string is the empty list.

  A Python \<^verbatim>\<open>float\<close> is not a number of the model but what \<^verbatim>\<open>repr\<close> prints of it: a
  finite float is \<open>Finite neg m decpt\<close>, with \<open>neg\<close> its sign bit, the decimal digits of
  \<open>m\<close> the digits of its shortest representation and \<open>decpt\<close> the position of the decimal
  point after them (the value is \<open>0.d\<^sub>1\<dots>d\<^sub>n \<times> 10\<^bsup>decpt\<^esup>\<close>); so \<open>0.5\<close> is \<open>Finite False 5 0\<close>,
  \<open>-12.25\<close> is \<open>Finite True 1225 2\<close> and \<open>0.0\<close> is \<open>Finite False 0 1\<close>. The other floats
  are \<open>NaN\<close> and the two infinities. Not every such triple is a float; the model has no
  need to say which are.
\<close>

datatype pyfloat = Finite bool nat int | NaN | Infinite bool

datatype pyval =
    PNone
  | PBool bool
  | PInt int
  | PFloat pyfloat
  | PStr string
  | PList "pyval list"
  | PDict "(string \<times> pyval) list"

text \<open>Python's truth value of an object, as \<^verbatim>\<open>if x\<close> and \<^verbatim>\<open>not x\<close> test it.\<close>

fun truthy_float :: "pyfloat \<Rightarrow> bool" where
  "truthy_float (Finite neg m decpt) = (m \<noteq> 0)"
| "truthy_float NaN = True"
| "truthy_float (Infinite neg) = True"

fun truthy :: "pyval \<Rightarrow> bool" where
  "truthy PNone = False"
| "truthy (PBool b) = b"
| "truthy (PInt i) = (i \<noteq> 0)"
| "truthy (PFloat x) = truthy_float x"
| "truthy (PStr s) = (s \<noteq> [])"
| "truthy (PList xs) = (xs \<noteq> [])"
| "truthy (PDict kvs) = (kvs \<noteq> [])"

text \<open>\<^verbatim>\<open>isinstance(x, str)\<close>.\<close>

fun isinstance_str :: "pyval \<Rightarrow> bool" where
  "isinstance_str (PStr s) = True"
| "isinstance_str v = False"

text \<open>\<^verbatim>\<open>type(x).__name__\<close>, which Python's error messages quote.\<close>

fun type_name :: "pyval \<Rightarrow> string" where
  "type_name PNone = ''NoneType''"
| "type_name (PBool b) = ''bool''"
| "type_name (PInt i) = ''int''"
| "type_name (PFloat x) = ''float''"
| "type_name (PStr s) = ''str''"
| "type_name (PList xs) = ''list''"
| "type_name (PDict kvs) = ''dict''"

text \<open>
  The objects that \<^verbatim>\<open>f(**x)\<close> can unpack into keyword arguments: of the values of the
  model, the dictionaries.
\<close>

fun is_mapping :: "pyval \<Rightarrow> bool" where
  "is_mapping (PDict kvs) = True"
| "is_mapping v = False"

section \<open>Exceptions\<close>

text \<open>
  Every exception of the model is an instance of Python's \<^verbatim>\<open>Exception\<close>, which is what
  the \<^verbatim>\<open>except Exception\<close> clauses of the engine catch. \<open>ClientError m\<close> is any exception
  raised inside the OpenAI client, with \<open>m\<close> its \<^verbatim>\<open>str(e)\<close>. The others are raised by the
  interpreter on the worker's own expressions: \<^verbatim>\<open>data[0]\<close> on an empty list,
  \<^verbatim>\<open>job["input"]\<close> on a missing key, \<^verbatim>\<open>x.get\<close> on an object without that method, and
  \<^verbatim>\<open>f(**x)\<close> on an \<open>x\<close> that is not a mapping (a TypeError, with its message).
\<close>

datatype exn =
    ClientError string
  | IndexError
  | KeyError string
  | AttributeError string string
  | TypeError string

fun str_exn :: "exn \<Rightarrow> string" where
  "str_exn (ClientError m) = m"
| "str_exn IndexError = ''list index out of range''"
| "str_exn (KeyError k) = [CHR 0x27] @ k @ [CHR 0x27]"
| "str_exn (AttributeError t a) =
     [CHR 0x27] @ t @ [CHR 0x27] @ '' object has no attribute '' @ [CHR 0x27] @ a @ [CHR 0x27]"
| "str_exn (TypeError m) = m"

text \<open>\<^verbatim>\<open>x.get(k, d)\<close>: the dictionary method, and an AttributeError on any other object.\<close>

fun py_get :: "pyval \<Rightarrow> string \<Rightarrow> pyval \<Rightarrow> exn + pyval" where
  "py_get (PDict kvs) k d = Inr (case map_of kvs k of None \<Rightarrow> d | Some v \<Rightarrow> v)"
| "py_get v k d = Inl (AttributeError (type_name v) ''get'')"

section \<open>utils.py: the job input\<close>

record JobInput =
  llm_input :: pyval
  stream :: pyval
  openai_route :: pyval
  openai_input :: pyval

text \<open>
  \<^verbatim>\<open>JobInput.__init__(self, job)\<close>. The four attributes are read with \<^verbatim>\<open>job.get\<close>; the
  default of \<^verbatim>\<open>messages\<close> is \<^verbatim>\<open>job.get("prompt")\<close>, and a one-argument \<^verbatim>\<open>get\<close> defaults
  to \<^verbatim>\<open>None\<close>.
\<close>

definition JobInput_init :: "pyval \<Rightarrow> exn + JobInput" where
  "JobInput_init job =
     (case py_get job ''prompt'' PNone of
        Inl e \<Rightarrow> Inl e
      | Inr prompt \<Rightarrow>
     (case py_get job ''messages'' prompt of
        Inl e \<Rightarrow> Inl e
      | Inr li \<Rightarrow>
     (case py_get job ''stream'' (PBool False) of
        Inl e \<Rightarrow> Inl e
      | Inr st \<Rightarrow>
     (case py_get job ''openai_route'' PNone of
        Inl e \<Rightarrow> Inl e
      | Inr route \<Rightarrow>
     (case py_get job ''openai_input'' PNone of
        Inl e \<Rightarrow> Inl e
      | Inr inp \<Rightarrow>
          Inr \<lparr>llm_input = li, stream = st, openai_route = route, openai_input = inp\<rparr>)))))"

section \<open>The OpenAI client\<close>

text \<open>
  The module-level \<^verbatim>\<open>client\<close> talks to the local inference service. It is a parameter
  of the model: three operations over a service state \<open>'s\<close>, each returning what the call
  evaluates to (an exception or an object) and the next state. The two \<open>create\<close>
  operations take the dictionary that was unpacked into their keyword arguments; a
  TypeError for a missing or an unexpected argument is among the exceptions they may
  return. The two names are the texts by which Python's error messages call the two
  methods, such as \<^verbatim>\<open>openai.resources.completions.Completions.create()\<close>; they depend
  on the version of the library.

  A model object has the attribute \<^verbatim>\<open>id\<close> and the method \<^verbatim>\<open>to_dict()\<close>. A response has
  \<^verbatim>\<open>to_dict()\<close> and can be iterated: the iteration is a list of events, \<open>Chunk d\<close> for a
  chunk whose \<^verbatim>\<open>to_dict()\<close> is \<open>d\<close>, and \<open>Fault e\<close> where fetching, converting or
  serializing the next chunk raises \<open>e\<close>. The end of the list is the end of the stream.
\<close>

record model =
  model_id :: string
  model_to_dict :: "exn + pyval"

datatype event = Chunk pyval | Fault exn

record response =
  resp_to_dict :: "exn + pyval"
  resp_iter :: "event list"

record 's client =
  models_list :: "'s \<Rightarrow> (exn + model list) \<times> 's"
  completions_create :: "pyval \<Rightarrow> 's \<Rightarrow> (exn + response) \<times> 's"
  chat_completions_create :: "pyval \<Rightarrow> 's \<Rightarrow> (exn + response) \<times> 's"
  completions_create_name :: string
  chat_completions_create_name :: string

text \<open>
  Besides the service state, the model keeps the log of the calls made on the client, in
  order, each with the object that was unpacked into its keyword arguments.
\<close>

datatype call = Models_list | Completions_create pyval | Chat_completions_create pyval

record 's world =
  service :: 's
  calls :: "call list"

definition call_models_list :: "'s client \<Rightarrow> 's world \<Rightarrow> (exn + model list) \<times> 's world" where
  "call_models_list c w =
     (case models_list c (service w) of
        (r, s') \<Rightarrow> (r, \<lparr>service = s', calls = calls w @ [Models_list]\<rparr>))"

text \<open>
  \<^verbatim>\<open>client.completions.create(**kw)\<close> and \<^verbatim>\<open>client.chat.completions.create(**kw)\<close>. The
  interpreter unpacks \<open>kw\<close> before it enters the method: when \<open>kw\<close> is not a mapping, it
  raises the TypeError itself and the client is not called.
\<close>

definition unpack_error :: "string \<Rightarrow> pyval \<Rightarrow> exn" where
  "unpack_error name kw =
     TypeError (name @ '' argument after ** must be a mapping, not '' @ type_name kw)"

definition call_completions_create ::
  "'s client \<Rightarrow> pyval \<Rightarrow> 's world \<Rightarrow> (exn + response) \<times> 's world" where
  "call_completions_create c kw w =
     (if \<not> is_mapping kw then (Inl (unpack_error (completions_create_name c) kw), w)
      else
        (case completions_create c kw (service w) of
           (r, s') \<Rightarrow> (r, \<lparr>service = s', calls = calls w @ [Completions_create kw]\<rparr>)))"

definition call_chat_completions_create ::
  "'s client \<Rightarrow> pyval \<Rightarrow> 's world \<Rightarrow> (exn + response) \<times> 's world" where
  "call_chat_completions_create c kw w =
     (if \<not> is_mapping kw then (Inl (unpack_error (chat_completions_create_name c) kw), w)
      else
        (case chat_completions_create c kw (service w) of
           (r, s') \<Rightarrow> (r, \<lparr>service = s', calls = calls w @ [Chat_completions_create kw]\<rparr>)))"

section \<open>json.dumps\<close>

text \<open>
  \<^verbatim>\<open>json.dumps(v, separators=(",", ":"))\<close> on the values of \<open>pyval\<close>, with the defaults
  \<^verbatim>\<open>ensure_ascii=True\<close> and \<^verbatim>\<open>allow_nan=True\<close> of the standard library.
\<close>

definition hex_digit :: "nat \<Rightarrow> char" where
  "hex_digit n = (''0123456789abcdef'') ! (n mod 16)"

text \<open>\<^verbatim>\<open>'{0:04x}'.format(n)\<close> for \<open>n\<close> below \<open>0x10000\<close>.\<close>

definition hex4 :: "nat \<Rightarrow> string" where
  "hex4 n = [hex_digit (n div 4096), hex_digit (n div 256), hex_digit (n div 16), hex_digit n]"

text \<open>The characters from the space to the tilde, which are written as they are.\<close>

definition printable :: "char \<Rightarrow> bool" where
  "printable ch \<longleftrightarrow> 0x20 \<le> (of_char ch :: nat) \<and> (of_char ch :: nat) \<le> 0x7E"

text \<open>
  The code points of a string, from its UTF-8 bytes. \<open>utf8_head\<close> reads the first code
  point and says how many bytes it took: one byte below \<open>0x80\<close>, and a lead byte from
  \<open>0xC0\<close>, \<open>0xE0\<close> or \<open>0xF0\<close> with one, two or three continuation bytes (\<open>0x80\<close> to
  \<open>0xBF\<close>), six bits each. A byte that starts no such sequence does not occur in the
  encoding of a Python string; it is read as one code point.
\<close>

definition is_cont :: "char \<Rightarrow> bool" where
  "is_cont b \<longleftrightarrow> 0x80 \<le> (of_char b :: nat) \<and> (of_char b :: nat) < 0xC0"

definition cont_bits :: "char \<Rightarrow> nat" where
  "cont_bits b = (of_char b :: nat) - 0x80"

fun utf8_head :: "char \<Rightarrow> string \<Rightarrow> nat \<times> nat" where
  "utf8_head b bs =
     (let n = (of_char b :: nat) in
      if 0xC0 \<le> n \<and> n < 0xE0 \<and> 1 \<le> length bs \<and> is_cont (bs ! 0)
      then ((n - 0xC0) * 64 + cont_bits (bs ! 0), 2)
      else if 0xE0 \<le> n \<and> n < 0xF0 \<and> 2 \<le> length bs \<and> is_cont (bs ! 0) \<and> is_cont (bs ! 1)
      then (((n - 0xE0) * 64 + cont_bits (bs ! 0)) * 64 + cont_bits (bs ! 1), 3)
      else if 0xF0 \<le> n \<and> n < 0xF8 \<and> 3 \<le> length bs
              \<and> is_cont (bs ! 0) \<and> is_cont (bs ! 1) \<and> is_cont (bs ! 2)
      then ((((n - 0xF0) * 64 + cont_bits (bs ! 0)) * 64 + cont_bits (bs ! 1)) * 64
              + cont_bits (bs ! 2), 4)
      else (n, 1))"

fun utf8_decode :: "string \<Rightarrow> nat list" where
  "utf8_decode [] = []"
| "utf8_decode (b # bs) =
     fst (utf8_head b bs) # utf8_decode (drop (snd (utf8_head b bs) - 1) bs)"

text \<open>
  The escape of one code point in a string, as \<^verbatim>\<open>py_encode_basestring_ascii\<close> writes it:
  the double quote, the backslash and five control characters have a short form;
  printable ASCII stands for itself; any other code point below \<open>0x10000\<close> is
  \<^verbatim>\<open>\uXXXX\<close> in lower-case hexadecimal, and one from \<open>0x10000\<close> is the pair of its two
  surrogates.
\<close>

definition escape_cp :: "nat \<Rightarrow> string" where
  "escape_cp n =
     (if n = 0x22 then [CHR 0x5C, CHR 0x22]
      else if n = 0x5C then [CHR 0x5C, CHR 0x5C]
      else if n = 0x0A then [CHR 0x5C, CHR ''n'']
      else if n = 0x0D then [CHR 0x5C, CHR ''r'']
      else if n = 0x09 then [CHR 0x5C, CHR ''t'']
      else if n = 0x08 then [CHR 0x5C, CHR ''b'']
      else if n = 0x0C then [CHR 0x5C, CHR ''f'']
      else if 0x20 \<le> n \<and> n \<le> 0x7E then [char_of n]
      else if n < 0x10000 then [CHR 0x5C, CHR ''u''] @ hex4 n
      else [CHR 0x5C, CHR ''u''] @ hex4 (0xD800 + ((n - 0x10000) div 1024) mod 1024)
         @ [CHR 0x5C, CHR ''u''] @ hex4 (0xDC00 + (n - 0x10000) mod 1024))"

definition json_string :: "string \<Rightarrow> string" where
  "json_string s = [CHR 0x22] @ concat (map escape_cp (utf8_decode s)) @ [CHR 0x22]"

fun digits :: "nat \<Rightarrow> string" where
  "digits n = (if n < 10 then [hex_digit n] else digits (n div 10) @ [hex_digit (n mod 10)])"

declare digits.simps [simp del]

definition json_int :: "int \<Rightarrow> string" where
  "json_int i = (if i < 0 then CHR ''-'' # digits (nat (- i)) else digits (nat i))"

text \<open>
  \<^verbatim>\<open>float.__repr__\<close> of a finite float, from its digits \<open>ds\<close> and the position \<open>decpt\<close> of
  the decimal point. The exponent form is used when \<open>decpt \<le> -4\<close> or \<open>decpt > 16\<close>: one
  digit, the point and the other digits if there are any, then \<open>e\<close>, the sign of the
  exponent \<open>decpt - 1\<close> and at least two digits of it. Otherwise the digits are written
  with the point in its place, with zeros before or after them as needed, and \<open>.0\<close> at
  the end of a whole number.
\<close>

definition exp_text :: "int \<Rightarrow> string" where
  "exp_text e =
     (if e < 0 then ''-'' else ''+'') @ (if \<bar>e\<bar> < 10 then ''0'' else []) @ digits (nat \<bar>e\<bar>)"

definition float_repr :: "bool \<Rightarrow> nat \<Rightarrow> int \<Rightarrow> string" where
  "float_repr neg m decpt =
     (let ds = digits m; n = int (length ds) in
      (if neg then ''-'' else []) @
      (if decpt \<le> - 4 \<or> decpt > 16 then
         (if n = 1 then ds else take 1 ds @ ''.'' @ drop 1 ds) @ ''e'' @ exp_text (decpt - 1)
       else if decpt \<le> 0 then ''0.'' @ replicate (nat (- decpt)) (CHR ''0'') @ ds
       else if decpt < n then take (nat decpt) ds @ ''.'' @ drop (nat decpt) ds
       else ds @ replicate (nat (decpt - n)) (CHR ''0'') @ ''.0''))"

text \<open>The encoder's \<^verbatim>\<open>floatstr\<close>.\<close>

fun json_float :: "pyfloat \<Rightarrow> string" where
  "json_float (Finite neg m decpt) = float_repr neg m decpt"
| "json_float NaN = ''NaN''"
| "json_float (Infinite neg) = (if neg then ''-Infinity'' else ''Infinity'')"

text \<open>\<^verbatim>\<open>sep.join(xs)\<close>.\<close>

fun join :: "string \<Rightarrow> string list \<Rightarrow> string" where
  "join sep [] = []"
| "join sep [x] = x"
| "join sep (x # y # ys) = x @ sep @ join sep (y # ys)"

fun json_dumps :: "pyval \<Rightarrow> string" where
  "json_dumps PNone = ''null''"
| "json_dumps (PBool b) = (if b then ''true'' else ''false'')"
| "json_dumps (PInt i) = json_int i"
| "json_dumps (PFloat x) = json_float x"
| "json_dumps (PStr s) = json_string s"
| "json_dumps (PList xs) = ''['' @ join '','' (map json_dumps xs) @ '']''"
| "json_dumps (PDict kvs) =
     ''{'' @ join '','' (map (\<lambda>(k, v). json_string k @ '':'' @ json_dumps v) kvs) @ ''}''"

section \<open>engine.py: LlamaCPPOpenAIEngine\<close>

text \<open>
  An async generator is modelled by what a consumer that drains it observes: the list of
  the units it yields, in order, and the exception that ends it, if one escapes. The
  \<^verbatim>\<open>print\<close> calls and \<^verbatim>\<open>load_dotenv()\<close> of the constructors are left out.
\<close>

type_synonym gen = "pyval list \<times> exn option"

definition error_unit :: "exn \<Rightarrow> pyval" where
  "error_unit e = PDict [(''error'', PStr (str_exn e))]"

text \<open>The list comprehension \<^verbatim>\<open>[model.to_dict() for model in response.data]\<close>.\<close>

fun to_dicts :: "model list \<Rightarrow> exn + pyval list" where
  "to_dicts [] = Inr []"
| "to_dicts (m # ms) =
     (case model_to_dict m of
        Inl e \<Rightarrow> Inl e
      | Inr d \<Rightarrow> (case to_dicts ms of Inl e \<Rightarrow> Inl e | Inr ds \<Rightarrow> Inr (d # ds)))"

definition handle_model_request :: "'s client \<Rightarrow> 's world \<Rightarrow> gen \<times> 's world" where
  "handle_model_request c w =
     (case call_models_list c w of
        (Inl e, w') \<Rightarrow> (([error_unit e], None), w')
      | (Inr ms, w') \<Rightarrow>
          (case to_dicts ms of
             Inl e \<Rightarrow> (([error_unit e], None), w')
           | Inr ds \<Rightarrow>
               (([PDict [(''object'', PStr ''list''), (''data'', PList ds)]], None), w')))"

text \<open>
  The loop \<^verbatim>\<open>for chunk in response\<close> with the final \<^verbatim>\<open>yield "data: [DONE]"\<close>, inside the
  \<^verbatim>\<open>try\<close>: an exception ends the loop with the error unit of the handler.
\<close>

definition frame :: "pyval \<Rightarrow> pyval" where
  "frame d = PStr (''data: '' @ json_dumps d @ [CHR 0x0A, CHR 0x0A])"

fun stream_units :: "event list \<Rightarrow> pyval list" where
  "stream_units [] = [PStr ''data: [DONE]'']"
| "stream_units (Chunk d # es) = frame d # stream_units es"
| "stream_units (Fault e # es) = [error_unit e]"

definition handle_chat_or_completion_request ::
  "'s client \<Rightarrow> pyval \<Rightarrow> bool \<Rightarrow> 's world \<Rightarrow> gen \<times> 's world" where
  "handle_chat_or_completion_request c inp chat w =
     (case (if chat then call_chat_completions_create c inp w
            else call_completions_create c inp w) of
        (Inl e, w') \<Rightarrow> (([error_unit e], None), w')
      | (Inr resp, w') \<Rightarrow>
          (case py_get inp ''stream'' (PBool False) of
             Inl e \<Rightarrow> (([error_unit e], None), w')
           | Inr st \<Rightarrow>
               if \<not> truthy st then
                 (case resp_to_dict resp of
                    Inl e \<Rightarrow> (([error_unit e], None), w')
                  | Inr d \<Rightarrow> (([d], None), w'))
               else ((stream_units (resp_iter resp), None), w')))"

definition LlamaCPPOpenAIEngine_generate ::
  "'s client \<Rightarrow> JobInput \<Rightarrow> 's world \<Rightarrow> gen \<times> 's world" where
  "LlamaCPPOpenAIEngine_generate c job_input w =
     (if openai_route job_input = PStr ''/v1/models'' then handle_model_request c w
      else if openai_route job_input \<in> set [PStr ''/v1/chat/completions'', PStr ''/v1/completions'']
      then handle_chat_or_completion_request c (openai_input job_input)
             (openai_route job_input = PStr ''/v1/chat/completions'') w
      else (([PDict [(''error'', PStr ''invalid route'')]], None), w))"

section \<open>engine.py: LlamaCPPEngine\<close>

text \<open>
  \<^verbatim>\<open>model = client.models.list().data[0].id\<close> stands before any \<^verbatim>\<open>try\<close>: an exception of
  the call, or the IndexError of an empty list, ends the generator.
\<close>

definition LlamaCPPEngine_generate ::
  "'s client \<Rightarrow> JobInput \<Rightarrow> 's world \<Rightarrow> gen \<times> 's world" where
  "LlamaCPPEngine_generate c job_input w =
     (case call_models_list c w of
        (Inl e, w') \<Rightarrow> (([], Some e), w')
      | (Inr [], w') \<Rightarrow> (([], Some IndexError), w')
      | (Inr (m # ms), w') \<Rightarrow>
          (case (if isinstance_str (llm_input job_input) then
                   JobInput_init (PDict
                     [(''openai_route'', PStr ''/v1/completions''),
                      (''openai_input'', PDict
                         [(''model'', PStr (model_id m)),
                          (''prompt'', llm_input job_input),
                          (''stream'', stream job_input)])])
                 else
                   JobInput_init (PDict
                     [(''openai_route'', PStr ''/v1/chat/completions''),
                      (''openai_input'', PDict
                         [(''model'', PStr (model_id m)),
                          (''messages'', llm_input job_input),
                          (''stream'', stream job_input)])])) of
             Inl e \<Rightarrow> (([], Some e), w')
           | Inr openAIjob \<Rightarrow> LlamaCPPOpenAIEngine_generate c openAIjob w'))"

section \<open>handler.py\<close>

text \<open>
  \<^verbatim>\<open>handler(job)\<close> with \<open>job\<close> the dictionary the host passes. The engine class is chosen
  by the truth value of \<^verbatim>\<open>job_input.openai_route\<close>.
\<close>

definition handler :: "'s client \<Rightarrow> (string \<times> pyval) list \<Rightarrow> 's world \<Rightarrow> gen \<times> 's world" where
  "handler c job w =
     (case map_of job ''input'' of
        None \<Rightarrow> (([], Some (KeyError ''input'')), w)
      | Some inp \<Rightarrow>
          (case JobInput_init inp of
             Inl e \<Rightarrow> (([], Some e), w)
           | Inr job_input \<Rightarrow>
               if truthy (openai_route job_input)
               then LlamaCPPOpenAIEngine_generate c job_input w
               else LlamaCPPEngine_generate c job_input w))"

section \<open>Example services\<close>

text \<open>Concrete clients and jobs, on which the results below are evaluated.\<close>

definition start :: "'s \<Rightarrow> 's world" where
  "start s = \<lparr>service = s, calls = []\<rparr>"

definition mock_model :: "string \<Rightarrow> model" where
  "mock_model name =
     \<lparr>model_id = name,
      model_to_dict = Inr (PDict [(''id'', PStr name), (''object'', PStr ''model'')])\<rparr>"

definition mock_response :: response where
  "mock_response =
     \<lparr>resp_to_dict = Inr (PDict [(''object'', PStr ''text_completion'')]),
      resp_iter = [Chunk (PDict [(''text'', PStr ''a'')]), Chunk (PDict [(''text'', PStr ''b'')])]\<rparr>"

definition broken_response :: response where
  "broken_response =
     \<lparr>resp_to_dict = Inr (PDict [(''object'', PStr ''text_completion'')]),
      resp_iter = [Chunk (PDict [(''text'', PStr ''a'')]), Fault (ClientError ''stream reset''),
                   Chunk (PDict [(''text'', PStr ''b'')])]\<rparr>"

text \<open>
  Two chunks with nested values. The text of the first is \<^verbatim>\<open>h\<close>, \<^verbatim>\<open>e\<close> with an acute
  accent (U+00E9), a space, the euro sign (U+20AC) between double quotes, a line feed and
  an emoji (U+1F600), and its \<open>logprob\<close> is \<open>-0.25\<close>. The numbers of the second are
  \<open>-42\<close>, \<open>100.0\<close>, \<open>1e-05\<close>, \<open>1.5e+17\<close>, \<open>NaN\<close> and \<open>-Infinity\<close>.
\<close>

definition rich_chunk1 :: pyval where
  "rich_chunk1 =
     PDict [(''id'', PStr ''c1''),
            (''choices'', PList [PDict
               [(''index'', PInt 0),
                (''text'', PStr ([CHR ''h'', CHR 0xC3, CHR 0xA9, CHR '' '', CHR 0x22,
                                  CHR 0xE2, CHR 0x82, CHR 0xAC, CHR 0x22, CHR 0x0A,
                                  CHR 0xF0, CHR 0x9F, CHR 0x98, CHR 0x80])),
                (''logprob'', PFloat (Finite True 25 0)),
                (''finish_reason'', PNone)]]),
            (''done'', PBool False)]"

definition rich_chunk2 :: pyval where
  "rich_chunk2 =
     PDict [(''nums'', PList [PInt (- 42), PFloat (Finite False 1 3),
                              PFloat (Finite False 1 (- 4)), PFloat (Finite False 15 18),
                              PFloat NaN, PFloat (Infinite True)]),
            (''empty'', PList []), (''none'', PDict []), (''done'', PBool True)]"

definition rich_response :: response where
  "rich_response =
     \<lparr>resp_to_dict = Inr (PDict [(''object'', PStr ''text_completion'')]),
      resp_iter = [Chunk rich_chunk1, Chunk rich_chunk2]\<rparr>"

text \<open>A service that cannot be reached: every call raises.\<close>

definition down_client :: "unit client" where
  "down_client =
     \<lparr>models_list = (\<lambda>s. (Inl (ClientError ''Connection error.''), s)),
      completions_create = (\<lambda>kw s. (Inl (ClientError ''Connection error.''), s)),
      chat_completions_create = (\<lambda>kw s. (Inl (ClientError ''Connection error.''), s)),
      completions_create_name = ''openai.resources.completions.Completions.create()'',
      chat_completions_create_name =
        ''openai.resources.chat.completions.completions.Completions.create()''\<rparr>"

text \<open>A service that counts its calls and always answers the same.\<close>

definition fixed_client :: "nat client" where
  "fixed_client =
     \<lparr>models_list = (\<lambda>s. (Inr [mock_model ''m1'', mock_model ''m2''], Suc s)),
      completions_create = (\<lambda>kw s. (Inr mock_response, Suc s)),
      chat_completions_create = (\<lambda>kw s. (Inr mock_response, Suc s)),
      completions_create_name = ''openai.resources.completions.Completions.create()'',
      chat_completions_create_name =
        ''openai.resources.chat.completions.completions.Completions.create()''\<rparr>"

text \<open>A service whose first model changes after its first call.\<close>

definition rolling_client :: "nat client" where
  "rolling_client =
     \<lparr>models_list = (\<lambda>s. (Inr [mock_model (if s = 0 then ''alpha'' else ''beta'')], Suc s)),
      completions_create = (\<lambda>kw s. (Inr mock_response, Suc s)),
      chat_completions_create = (\<lambda>kw s. (Inr mock_response, Suc s)),
      completions_create_name = ''openai.resources.completions.Completions.create()'',
      chat_completions_create_name =
        ''openai.resources.chat.completions.completions.Completions.create()''\<rparr>"

text \<open>A service whose streams break after the first chunk.\<close>

definition flaky_client :: "nat client" where
  "flaky_client =
     \<lparr>models_list = (\<lambda>s. (Inr [mock_model ''m1''], Suc s)),
      completions_create = (\<lambda>kw s. (Inr broken_response, Suc s)),
      chat_completions_create = (\<lambda>kw s. (Inr broken_response, Suc s)),
      completions_create_name = ''openai.resources.completions.Completions.create()'',
      chat_completions_create_name =
        ''openai.resources.chat.completions.completions.Completions.create()''\<rparr>"

text \<open>A service that streams the two chunks with nested values.\<close>

definition rich_client :: "nat client" where
  "rich_client =
     \<lparr>models_list = (\<lambda>s. (Inr [mock_model ''m1''], Suc s)),
      completions_create = (\<lambda>kw s. (Inr rich_response, Suc s)),
      chat_completions_create = (\<lambda>kw s. (Inr rich_response, Suc s)),
      completions_create_name = ''openai.resources.completions.Completions.create()'',
      chat_completions_create_name =
        ''openai.resources.chat.completions.completions.Completions.create()''\<rparr>"

section \<open>Basic facts\<close>

lemmas client_call_defs =
  call_models_list_def call_completions_create_def call_chat_completions_create_def

lemmas example_defs =
  start_def mock_model_def mock_response_def broken_response_def
  down_client_def fixed_client_def rolling_client_def flaky_client_def

lemma JobInput_init_PDict:
  "JobInput_init (PDict kvs) =
     Inr \<lparr>llm_input = (case map_of kvs ''messages'' of
                         None \<Rightarrow> (case map_of kvs ''prompt'' of None \<Rightarrow> PNone | Some v \<Rightarrow> v)
                       | Some v \<Rightarrow> v),
          stream = (case map_of kvs ''stream'' of None \<Rightarrow> PBool False | Some v \<Rightarrow> v),
          openai_route = (case map_of kvs ''openai_route'' of None \<Rightarrow> PNone | Some v \<Rightarrow> v),
          openai_input = (case map_of kvs ''openai_input'' of None \<Rightarrow> PNone | Some v \<Rightarrow> v)\<rparr>"
  by (simp add: JobInput_init_def)

text \<open>
  Every call on the client is logged, whatever it returns. A payload that is not a
  mapping never reaches the client: the request handler yields the TypeError of the
  unpacking as its one unit and leaves the world as it was.
\<close>

lemma handle_model_request_calls:
  "calls (snd (handle_model_request c w)) = calls w @ [Models_list]"
  by (simp add: handle_model_request_def call_models_list_def split: prod.splits sum.splits)

lemma handle_chat_or_completion_request_calls:
  "calls (snd (handle_chat_or_completion_request c p chat w)) =
   calls w @ (if is_mapping p
              then [if chat then Chat_completions_create p else Completions_create p]
              else [])"
  by (simp add: handle_chat_or_completion_request_def client_call_defs
      split: prod.splits sum.splits)

lemma handle_chat_or_completion_request_not_mapping:
  assumes "\<not> is_mapping p"
  shows "handle_chat_or_completion_request c p chat w =
     (([PDict [(''error'',
          PStr ((if chat then chat_completions_create_name c else completions_create_name c)
                @ '' argument after ** must be a mapping, not '' @ type_name p))]], None), w)"
  using assms
  by (simp add: handle_chat_or_completion_request_def client_call_defs unpack_error_def
      error_unit_def)

text \<open>
  The two request handlers wrap their whole body in \<^verbatim>\<open>try\<close>/\<^verbatim>\<open>except Exception\<close>, so no
  exception leaves the generator of \<^verbatim>\<open>LlamaCPPOpenAIEngine\<close>.
\<close>

lemma handle_model_request_no_raise: "snd (fst (handle_model_request c w)) = None"
  by (simp add: handle_model_request_def split: prod.splits sum.splits)

lemma handle_chat_or_completion_request_no_raise:
  "snd (fst (handle_chat_or_completion_request c p chat w)) = None"
  by (simp add: handle_chat_or_completion_request_def split: prod.splits sum.splits)

lemma LlamaCPPOpenAIEngine_generate_no_raise:
  "snd (fst (LlamaCPPOpenAIEngine_generate c ji w)) = None"
  by (simp add: LlamaCPPOpenAIEngine_generate_def handle_model_request_no_raise
      handle_chat_or_completion_request_no_raise)

text \<open>\<^verbatim>\<open>LlamaCPPEngine.generate\<close> reads \<open>llm_input\<close> and \<open>stream\<close> of its job input only.\<close>

lemma LlamaCPPEngine_generate_reads:
  "LlamaCPPEngine_generate c ji w =
   LlamaCPPEngine_generate c
     \<lparr>llm_input = llm_input ji, stream = stream ji, openai_route = r', openai_input = p'\<rparr> w"
  by (simp add: LlamaCPPEngine_generate_def JobInput_init_def
      split: prod.splits sum.splits list.splits)

section \<open>Faults of the client and the generate operations\<close>

text \<open>
  Claim C1: every fault thrown by the inference client, at any stage and on every route,
  is turned into one \<open>{error: message}\<close> unit, and no exception leaves the generate
  operations; this is to cover the model-resolution call made before the route is
  dispatched.

  The code does not do that for the model-resolution call. With a service that cannot be
  reached, the job \<open>{input: {prompt: "hi"}}\<close> yields no unit and ends with the client's
  exception, raised by \<^verbatim>\<open>client.models.list()\<close> in \<^verbatim>\<open>LlamaCPPEngine.generate\<close>, which has no
  \<^verbatim>\<open>try\<close>. The same call on the same service in \<^verbatim>\<open>_handle_model_request\<close> (the job with
  \<open>openai_route = "/v1/models"\<close>) is caught and yields the error unit.
\<close>

theorem model_resolution_fault_escapes:
  "handler down_client [(''input'', PDict [(''prompt'', PStr ''hi'')])] (start ()) =
     (([], Some (ClientError ''Connection error.'')), \<lparr>service = (), calls = [Models_list]\<rparr>)
   \<and> handler down_client [(''input'', PDict [(''openai_route'', PStr ''/v1/models'')])] (start ()) =
     (([PDict [(''error'', PStr ''Connection error.'')]], None),
      \<lparr>service = (), calls = [Models_list]\<rparr>)"
  by (simp add: handler_def JobInput_init_def LlamaCPPEngine_generate_def
      LlamaCPPOpenAIEngine_generate_def handle_model_request_def error_unit_def
      call_models_list_def down_client_def start_def)

section \<open>The explicit route\<close>

text \<open>
  Claim C2, as stated: whenever the input map of a job contains an \<open>openai_route\<close> field,
  the request is dispatched with that route and its \<open>openai_input\<close> as they are, and the
  shape of \<open>llm_input\<close> is not looked at.

  It fails where the field is there with a value that Python counts as false. With
  \<open>openai_route = ""\<close> and a prompt, dispatching the route as it is would give the one
  unit \<open>{error: "invalid route"}\<close> and no call; the handler takes the shape-routed engine
  instead, which resolves the model and sends the prompt to the completion route.
\<close>

theorem empty_route_not_dispatched:
  "map_of [(''openai_route'', PStr ''''), (''prompt'', PStr ''hi'')] ''openai_route'' =
     Some (PStr '''')
   \<and> LlamaCPPOpenAIEngine_generate fixed_client
       \<lparr>llm_input = PStr ''hi'', stream = PBool False, openai_route = PStr '''',
        openai_input = PNone\<rparr> (start 0) =
     (([PDict [(''error'', PStr ''invalid route'')]], None), \<lparr>service = 0, calls = []\<rparr>)
   \<and> handler fixed_client
       [(''input'', PDict [(''openai_route'', PStr ''''), (''prompt'', PStr ''hi'')])] (start 0) =
     (([PDict [(''object'', PStr ''text_completion'')]], None),
      \<lparr>service = 2,
       calls = [Models_list,
                Completions_create (PDict [(''model'', PStr ''m1''), (''prompt'', PStr ''hi''),
                                           (''stream'', PBool False)])]\<rparr>)"
  by (simp add: handler_def JobInput_init_def LlamaCPPEngine_generate_def
      LlamaCPPOpenAIEngine_generate_def handle_chat_or_completion_request_def
      client_call_defs example_defs)

text \<open>
  Claim C2, amended: whenever the input map of a job contains an \<open>openai_route\<close> field
  whose value Python counts as true (a non-empty string, for one), the request is
  dispatched with that route and the \<open>openai_input\<close> of the map (\<open>None\<close> when there is
  none) as they are. The outcome is that of the OpenAI engine on a job input with any
  \<open>llm_input\<close> and \<open>stream\<close> whatever, so neither is looked at. The only call made on the
  client is the one of the route: the model listing for \<open>"/v1/models"\<close>, and for the
  chat and the completion route the \<^verbatim>\<open>create\<close> call with the payload unchanged when the
  payload is a mapping, and no call when it is not (unpacking it raises the TypeError that
  becomes the error unit); any other route makes no call.

  Whenever the field is there with a value that Python counts as false (\<open>""\<close>, \<open>None\<close>,
  \<open>0\<close>, \<open>[]\<close>, \<open>{}\<close>), the field is treated as absent: the job is routed by the shape of
  \<open>llm_input\<close>, and the outcome is that of the shape-routing engine on the \<open>llm_input\<close>
  and \<open>stream\<close> of the map with any route and payload whatever, so neither the route nor
  the \<open>openai_input\<close> of the map is used.
\<close>

theorem explicit_route_dispatch:
  assumes "map_of job ''input'' = Some (PDict kvs)"
    and "map_of kvs ''openai_route'' = Some r"
    and "p = (case map_of kvs ''openai_input'' of None \<Rightarrow> PNone | Some v \<Rightarrow> v)"
    and "li = (case map_of kvs ''messages'' of
                 None \<Rightarrow> (case map_of kvs ''prompt'' of None \<Rightarrow> PNone | Some v \<Rightarrow> v)
               | Some v \<Rightarrow> v)"
    and "st = (case map_of kvs ''stream'' of None \<Rightarrow> PBool False | Some v \<Rightarrow> v)"
  shows "(truthy r \<longrightarrow>
            handler c job w =
              LlamaCPPOpenAIEngine_generate c
                \<lparr>llm_input = x, stream = y, openai_route = r, openai_input = p\<rparr> w
            \<and> calls (snd (handler c job w)) = calls w @
                (if r = PStr ''/v1/models'' then [Models_list]
                 else if r = PStr ''/v1/chat/completions'' \<and> is_mapping p
                 then [Chat_completions_create p]
                 else if r = PStr ''/v1/completions'' \<and> is_mapping p
                 then [Completions_create p]
                 else []))
       \<and> (\<not> truthy r \<longrightarrow>
            handler c job w =
              LlamaCPPEngine_generate c
                \<lparr>llm_input = li, stream = st, openai_route = r', openai_input = p'\<rparr> w)"
proof (intro conjI impI)
  assume t: "truthy r"
  show h: "handler c job w =
      LlamaCPPOpenAIEngine_generate c
        \<lparr>llm_input = x, stream = y, openai_route = r, openai_input = p\<rparr> w"
    using assms(1-3) t
    by (simp add: handler_def JobInput_init_PDict LlamaCPPOpenAIEngine_generate_def)
  have "calls (snd (LlamaCPPOpenAIEngine_generate c
        \<lparr>llm_input = x, stream = y, openai_route = r, openai_input = p\<rparr> w)) = calls w @
                (if r = PStr ''/v1/models'' then [Models_list]
                 else if r = PStr ''/v1/chat/completions'' \<and> is_mapping p
                 then [Chat_completions_create p]
                 else if r = PStr ''/v1/completions'' \<and> is_mapping p
                 then [Completions_create p]
                 else [])"
    by (simp add: LlamaCPPOpenAIEngine_generate_def handle_model_request_calls
        handle_chat_or_completion_request_calls)
  then show "calls (snd (handler c job w)) = calls w @
                (if r = PStr ''/v1/models'' then [Models_list]
                 else if r = PStr ''/v1/chat/completions'' \<and> is_mapping p
                 then [Chat_completions_create p]
                 else if r = PStr ''/v1/completions'' \<and> is_mapping p
                 then [Completions_create p]
                 else [])"
    unfolding h .
next
  assume f: "\<not> truthy r"
  have a: "handler c job w =
      LlamaCPPEngine_generate c
        \<lparr>llm_input = li, stream = st, openai_route = r, openai_input = p\<rparr> w"
    using assms f by (simp add: handler_def JobInput_init_PDict)
  have b: "LlamaCPPEngine_generate c
        \<lparr>llm_input = li, stream = st, openai_route = r, openai_input = p\<rparr> w =
      LlamaCPPEngine_generate c
        \<lparr>llm_input = li, stream = st, openai_route = r', openai_input = p'\<rparr> w"
    using LlamaCPPEngine_generate_reads
      [of c "\<lparr>llm_input = li, stream = st, openai_route = r, openai_input = p\<rparr>" w r' p']
    by simp
  show "handler c job w =
      LlamaCPPEngine_generate c
        \<lparr>llm_input = li, stream = st, openai_route = r', openai_input = p'\<rparr> w"
    unfolding a by (rule b)
qed

theorem explicit_route_dispatch_witness:
  "calls (snd (handler fixed_client
     [(''input'', PDict [(''prompt'', PStr ''hi''),
                         (''openai_route'', PStr ''/v1/chat/completions''),
                         (''openai_input'', PDict [(''model'', PStr ''m9''),
                                                   (''messages'', PList [])])])] (start 0))) =
     [Chat_completions_create (PDict [(''model'', PStr ''m9''), (''messages'', PList [])])]
   \<and> handler fixed_client
       [(''input'', PDict [(''prompt'', PStr ''hi''),
                           (''openai_route'', PStr ''/v1/completions'')])] (start 0) =
     (([PDict [(''error'',
          PStr (''openai.resources.completions.Completions.create()''
                @ '' argument after ** must be a mapping, not NoneType''))]], None),
      \<lparr>service = 0, calls = []\<rparr>)
   \<and> handler fixed_client
       [(''input'', PDict [(''messages'', PList []), (''openai_route'', PInt 0),
                           (''openai_input'', PDict [(''model'', PStr ''m9'')])])] (start 0) =
     LlamaCPPEngine_generate fixed_client
       \<lparr>llm_input = PList [], stream = PBool False, openai_route = PNone,
        openai_input = PNone\<rparr> (start 0)"
proof -
  have 1: "calls (snd (handler fixed_client
     [(''input'', PDict [(''prompt'', PStr ''hi''),
                         (''openai_route'', PStr ''/v1/chat/completions''),
                         (''openai_input'', PDict [(''model'', PStr ''m9''),
                                                   (''messages'', PList [])])])] (start 0))) =
     calls (start (0::nat)) @
       [Chat_completions_create (PDict [(''model'', PStr ''m9''), (''messages'', PList [])])]"
    using explicit_route_dispatch [of
        "[(''input'', PDict [(''prompt'', PStr ''hi''),
                         (''openai_route'', PStr ''/v1/chat/completions''),
                         (''openai_input'', PDict [(''model'', PStr ''m9''),
                                                   (''messages'', PList [])])])]"
        "[(''prompt'', PStr ''hi''), (''openai_route'', PStr ''/v1/chat/completions''),
          (''openai_input'', PDict [(''model'', PStr ''m9''), (''messages'', PList [])])]"
        "PStr ''/v1/chat/completions''"
        "PDict [(''model'', PStr ''m9''), (''messages'', PList [])]"
        "PStr ''hi''" "PBool False" fixed_client "start 0"]
    by simp
  have 2: "handler fixed_client
       [(''input'', PDict [(''prompt'', PStr ''hi''),
                           (''openai_route'', PStr ''/v1/completions'')])] (start 0) =
     LlamaCPPOpenAIEngine_generate fixed_client
       \<lparr>llm_input = PNone, stream = PNone, openai_route = PStr ''/v1/completions'',
        openai_input = PNone\<rparr> (start 0)"
    using explicit_route_dispatch [of
        "[(''input'', PDict [(''prompt'', PStr ''hi''),
                           (''openai_route'', PStr ''/v1/completions'')])]"
        "[(''prompt'', PStr ''hi''), (''openai_route'', PStr ''/v1/completions'')]"
        "PStr ''/v1/completions''" PNone "PStr ''hi''" "PBool False" fixed_client "start 0"
        PNone PNone]
    by simp
  have 3: "handler fixed_client
       [(''input'', PDict [(''messages'', PList []), (''openai_route'', PInt 0),
                           (''openai_input'', PDict [(''model'', PStr ''m9'')])])] (start 0) =
     LlamaCPPEngine_generate fixed_client
       \<lparr>llm_input = PList [], stream = PBool False, openai_route = PNone,
        openai_input = PNone\<rparr> (start 0)"
    using explicit_route_dispatch [of
        "[(''input'', PDict [(''messages'', PList []), (''openai_route'', PInt 0),
                           (''openai_input'', PDict [(''model'', PStr ''m9'')])])]"
        "[(''messages'', PList []), (''openai_route'', PInt 0),
          (''openai_input'', PDict [(''model'', PStr ''m9'')])]"
        "PInt 0" "PDict [(''model'', PStr ''m9'')]" "PList []" "PBool False"
        fixed_client "start 0" _ _ PNone PNone]
    by simp
  show ?thesis
    unfolding 1 2 3
    by (simp add: start_def LlamaCPPOpenAIEngine_generate_def
        handle_chat_or_completion_request_not_mapping fixed_client_def)
qed

text \<open>
  Claim C7: for every \<open>openai_route\<close> that is none of \<open>"/v1/models"\<close>,
  \<open>"/v1/completions"\<close> and \<open>"/v1/chat/completions"\<close>, the dispatch of
  \<^verbatim>\<open>LlamaCPPOpenAIEngine.generate\<close> yields exactly the one unit \<open>{error: "invalid route"}\<close>,
  raises nothing and makes no call on the inference service: the service state and the
  call log are as they were.
\<close>

theorem invalid_route_single_error:
  assumes "openai_route ji \<noteq> PStr ''/v1/models''"
    and "openai_route ji \<noteq> PStr ''/v1/completions''"
    and "openai_route ji \<noteq> PStr ''/v1/chat/completions''"
  shows "LlamaCPPOpenAIEngine_generate c ji w =
           (([PDict [(''error'', PStr ''invalid route'')]], None), w)"
  using assms by (simp add: LlamaCPPOpenAIEngine_generate_def)

theorem invalid_route_single_error_witness:
  "LlamaCPPOpenAIEngine_generate fixed_client
     \<lparr>llm_input = PStr ''hi'', stream = PBool True, openai_route = PStr ''/v1/embeddings'',
      openai_input = PDict [(''input'', PStr ''hi'')]\<rparr> (start 0) =
   (([PDict [(''error'', PStr ''invalid route'')]], None), \<lparr>service = 0, calls = []\<rparr>)"
  using invalid_route_single_error [of "\<lparr>llm_input = PStr ''hi'', stream = PBool True,
      openai_route = PStr ''/v1/embeddings'', openai_input = PDict [(''input'', PStr ''hi'')]\<rparr>"
      fixed_client "start 0"]
  by (simp add: start_def)

section \<open>The normalizer\<close>

text \<open>
  Claim C8: for every raw job input map, \<^verbatim>\<open>JobInput\<close> is built without an exception;
  \<open>llm_input\<close> is the \<open>messages\<close> field when the map contains it and the \<open>prompt\<close> field
  otherwise (\<open>None\<close> when that is missing too); \<open>stream\<close> is the \<open>stream\<close> field and
  \<open>False\<close> when the map has none; \<open>openai_route\<close> and \<open>openai_input\<close> are the fields of
  these names and \<open>None\<close> when the map has none.
\<close>

theorem JobInput_init_fields:
  "\<exists>ji. JobInput_init (PDict kvs) = Inr ji
     \<and> llm_input ji = (if ''messages'' \<in> dom (map_of kvs) then the (map_of kvs ''messages'')
                       else if ''prompt'' \<in> dom (map_of kvs) then the (map_of kvs ''prompt'')
                       else PNone)
     \<and> stream ji = (if ''stream'' \<in> dom (map_of kvs) then the (map_of kvs ''stream'')
                     else PBool False)
     \<and> openai_route ji = (if ''openai_route'' \<in> dom (map_of kvs)
                           then the (map_of kvs ''openai_route'') else PNone)
     \<and> openai_input ji = (if ''openai_input'' \<in> dom (map_of kvs)
                           then the (map_of kvs ''openai_input'') else PNone)"
  by (auto simp: JobInput_init_PDict dom_def split: option.splits)

theorem JobInput_init_fields_witness:
  "\<exists>ji. JobInput_init (PDict [(''prompt'', PStr ''hi''), (''messages'', PNone)]) = Inr ji
     \<and> llm_input ji = PNone \<and> stream ji = PBool False
     \<and> openai_route ji = PNone \<and> openai_input ji = PNone"
  using JobInput_init_fields [of "[(''prompt'', PStr ''hi''), (''messages'', PNone)]"]
  by (simp add: dom_def)

section \<open>The streaming frames\<close>

text \<open>
  What \<open>json_dumps\<close> writes is printable ASCII throughout, for every value: text is
  escaped, and numbers, \<open>NaN\<close> and the infinities are written in ASCII. So a serialized
  chunk holds no line break.
\<close>

lemma hex_digit_printable: "printable (hex_digit n)"
proof -
  define k where "k = n mod 16"
  have "k < 16" by (simp add: k_def)
  then have "k = 0 \<or> k = 1 \<or> k = 2 \<or> k = 3 \<or> k = 4 \<or> k = 5 \<or> k = 6 \<or> k = 7 \<or> k = 8
    \<or> k = 9 \<or> k = 10 \<or> k = 11 \<or> k = 12 \<or> k = 13 \<or> k = 14 \<or> k = 15" by arith
  then show ?thesis unfolding hex_digit_def printable_def k_def [symmetric] by auto
qed

lemma hex4_printable: "ch \<in> set (hex4 n) \<Longrightarrow> printable ch"
  using hex_digit_printable by (auto simp: hex4_def)

lemma printable_char_of: "0x20 \<le> n \<Longrightarrow> n \<le> 0x7E \<Longrightarrow> printable (char_of (n::nat))"
  by (simp add: printable_def)

lemma escape_cp_printable: "ch \<in> set (escape_cp n) \<Longrightarrow> printable ch"
proof -
  have bs: "printable (CHR 0x5C)" and u: "printable (CHR ''u'')" and q: "printable (CHR 0x22)"
    and l: "printable (CHR ''n'')" "printable (CHR ''r'')" "printable (CHR ''t'')"
      "printable (CHR ''b'')" "printable (CHR ''f'')"
    by (simp_all add: printable_def)
  assume "ch \<in> set (escape_cp n)"
  then show ?thesis
    using bs u q l hex4_printable printable_char_of [of n]
    by (auto simp: escape_cp_def split: if_splits)
qed

lemma json_string_printable: "ch \<in> set (json_string s) \<Longrightarrow> printable ch"
proof -
  have q: "printable (CHR 0x22)" by (simp add: printable_def)
  assume "ch \<in> set (json_string s)"
  then show ?thesis using q escape_cp_printable by (auto simp: json_string_def)
qed

lemma digits_printable: "ch \<in> set (digits n) \<Longrightarrow> printable ch"
proof (induction n arbitrary: ch rule: digits.induct)
  case (1 n)
  show ?case
  proof (cases "n < 10")
    case True
    with "1.prems" show ?thesis
      using hex_digit_printable [of n] by (simp add: digits.simps [of n])
  next
    case False
    with "1.prems" have "ch \<in> set (digits (n div 10)) \<or> ch = hex_digit (n mod 10)"
      by (auto simp: digits.simps [of n])
    then show ?thesis
      using "1.IH" [OF False] hex_digit_printable [of "n mod 10"] by auto
  qed
qed

lemma json_int_printable: "ch \<in> set (json_int i) \<Longrightarrow> printable ch"
proof -
  have m: "printable (CHR ''-'')" by (simp add: printable_def)
  assume "ch \<in> set (json_int i)"
  then show ?thesis using m digits_printable by (auto simp: json_int_def split: if_splits)
qed

lemma exp_text_printable: "ch \<in> set (exp_text e) \<Longrightarrow> printable ch"
proof -
  have m: "printable (CHR ''-'')" "printable (CHR ''+'')" "printable (CHR ''0'')"
    by (simp_all add: printable_def)
  assume "ch \<in> set (exp_text e)"
  then show ?thesis using m digits_printable by (auto simp: exp_text_def split: if_splits)
qed

lemma float_repr_printable: "ch \<in> set (float_repr neg m decpt) \<Longrightarrow> printable ch"
proof -
  have m: "printable (CHR ''-'')" "printable (CHR ''.'')" "printable (CHR ''0'')"
    "printable (CHR ''e'')"
    by (simp_all add: printable_def)
  have t: "ch \<in> set (take k (digits m)) \<Longrightarrow> printable ch" for k
    using digits_printable by (meson in_set_takeD)
  have d: "ch \<in> set (drop k (digits m)) \<Longrightarrow> printable ch" for k
    using digits_printable by (meson in_set_dropD)
  assume "ch \<in> set (float_repr neg m decpt)"
  then show ?thesis
    using m t d digits_printable exp_text_printable
    by (auto simp: float_repr_def Let_def split: if_splits)
qed

lemma json_float_printable: "ch \<in> set (json_float x) \<Longrightarrow> printable ch"
proof (cases x)
  case (Finite neg m decpt)
  assume "ch \<in> set (json_float x)"
  with Finite show ?thesis by (simp add: float_repr_printable)
next
  case NaN
  assume "ch \<in> set (json_float x)"
  with NaN show ?thesis by (auto simp: printable_def)
next
  case (Infinite neg)
  assume "ch \<in> set (json_float x)"
  with Infinite show ?thesis by (auto simp: printable_def split: if_splits)
qed

lemma join_printable:
  "(\<And>x ch. x \<in> set xs \<Longrightarrow> ch \<in> set x \<Longrightarrow> printable ch) \<Longrightarrow> (\<And>ch. ch \<in> set sep \<Longrightarrow> printable ch)
   \<Longrightarrow> ch \<in> set (join sep xs) \<Longrightarrow> printable ch"
  by (induction sep xs rule: join.induct) auto

lemma json_dumps_printable: "ch \<in> set (json_dumps v) \<Longrightarrow> printable ch"
proof (induction v arbitrary: ch)
  case PNone
  then show ?case by (auto simp: printable_def)
next
  case (PBool b)
  then show ?case by (auto simp: printable_def split: if_splits)
next
  case (PInt i)
  then show ?case by (simp add: json_int_printable)
next
  case (PFloat x)
  then show ?case by (simp add: json_float_printable)
next
  case (PStr s)
  then show ?case by (simp add: json_string_printable)
next
  case (PList xs)
  have "ch \<in> set (join '','' (map json_dumps xs)) \<Longrightarrow> printable ch"
    by (rule join_printable [where xs = "map json_dumps xs" and sep = "'',''"])
       (use PList.IH in \<open>auto simp: printable_def\<close>)
  with PList.prems show ?case by (auto simp: printable_def)
next
  case (PDict kvs)
  have "ch \<in> set (join '','' (map (\<lambda>(k, v). json_string k @ '':'' @ json_dumps v) kvs)) \<Longrightarrow> printable ch"
    by (rule join_printable [where xs = "map (\<lambda>(k, v). json_string k @ '':'' @ json_dumps v) kvs" and sep = "'',''"])
       (use PDict.IH json_string_printable in \<open>auto simp: printable_def\<close>)
  with PDict.prems show ?case by (auto simp: printable_def)
qed

lemma json_dumps_no_line_break:
  "CHR 0x0A \<notin> set (json_dumps v) \<and> CHR 0x0D \<notin> set (json_dumps v)"
  using json_dumps_printable [of "CHR 0x0A" v] json_dumps_printable [of "CHR 0x0D" v]
  by (auto simp: printable_def)

text \<open>
  The serializer on concrete values: the code points of a string from its bytes, the
  forms of \<^verbatim>\<open>repr\<close> of a float, and the compact JSON of the two example chunks, written
  out (\<open>CHR 0x5C\<close> is the backslash).
\<close>

lemma replicate_numeral: "replicate (numeral k) x = x # replicate (pred_numeral k) x"
  by (simp add: numeral_eq_Suc)

lemmas json_defs =
  json_string_def escape_cp_def hex4_def hex_digit_def json_int_def float_repr_def
  exp_text_def digits.simps is_cont_def cont_bits_def Let_def
  char_of_eq_iff take_bit_eq_mod replicate_numeral

lemma utf8_decode_example:
  "utf8_decode [CHR ''h'', CHR 0xC3, CHR 0xA9, CHR 0xE2, CHR 0x82, CHR 0xAC,
                CHR 0xF0, CHR 0x9F, CHR 0x98, CHR 0x80] = [0x68, 0xE9, 0x20AC, 0x1F600]"
  by (simp add: json_defs)

lemma float_repr_examples:
  "float_repr False 0 1 = ''0.0''"
  "float_repr True 0 1 = ''-0.0''"
  "float_repr False 7 0 = ''0.7''"
  "float_repr True 1225 2 = ''-12.25''"
  "float_repr False 1 (- 3) = ''0.0001''"
  "float_repr False 1 (- 4) = ''1e-05''"
  "float_repr False 1 16 = ''1000000000000000.0''"
  "float_repr False 1 17 = ''1e+16''"
  "float_repr False 12345678901234568 18 = ''1.2345678901234568e+17''"
  "float_repr False 5 (- 323) = ''5e-324''"
  by (simp_all add: json_defs)

lemma json_dumps_rich_chunk1:
  \<open>json_dumps rich_chunk1 =
     ''{"id":"c1","choices":[{"index":0,"text":"h'' @ [CHR 0x5C] @ ''u00e9 '' @ [CHR 0x5C]
     @ ''"'' @ [CHR 0x5C] @ ''u20ac'' @ [CHR 0x5C] @ ''"'' @ [CHR 0x5C] @ ''n'' @ [CHR 0x5C]
     @ ''ud83d'' @ [CHR 0x5C] @ ''ude00","logprob":-0.25,"finish_reason":null}],"done":false}''\<close>
  by (simp add: rich_chunk1_def json_defs)

lemma json_dumps_rich_chunk2:
  \<open>json_dumps rich_chunk2 =
     ''{"nums":[-42,100.0,1e-05,1.5e+17,NaN,-Infinity],"empty":[],"none":{},"done":true}''\<close>
  by (simp add: rich_chunk2_def json_defs)

text \<open>The loop over the stream, on a stream that ends and on one that raises.\<close>

lemma stream_units_chunks:
  "stream_units (map Chunk ds) = map frame ds @ [PStr ''data: [DONE]'']"
  by (induction ds) simp_all

lemma stream_units_fault:
  "stream_units (map Chunk ds @ Fault e # rest) = map frame ds @ [error_unit e]"
  by (induction ds) simp_all

lemma frame_not_done: "frame d \<noteq> PStr ''data: [DONE]''"
proof
  assume "frame d = PStr ''data: [DONE]''"
  then have "last (''data: '' @ json_dumps d @ [CHR 0x0A, CHR 0x0A]) = last ''data: [DONE]''"
    by (simp add: frame_def)
  then show False by simp
qed

lemma handle_request_stream:
  assumes "(if chat then chat_completions_create c (PDict kw) (service w)
            else completions_create c (PDict kw) (service w)) = (Inr resp, s')"
    and "map_of kw ''stream'' = Some st" and "truthy st"
  shows "fst (handle_chat_or_completion_request c (PDict kw) chat w) =
           (stream_units (resp_iter resp), None)"
  using assms
  by (cases chat) (simp_all add: handle_chat_or_completion_request_def
      call_completions_create_def call_chat_completions_create_def)

text \<open>
  Claim C3: a completion or chat-completion call whose payload asks for streaming (its
  \<open>stream\<close> entry is true), whose \<^verbatim>\<open>create\<close> call returns a stream, and whose stream
  delivers the \<open>N\<close> chunks \<open>ds\<close> and ends without a failure, yields exactly \<open>N + 1\<close> units
  and raises nothing: for each chunk in order the string \<open>"data: "\<close>, then the chunk as
  compact JSON, then two line feeds, and at the end the string \<open>"data: [DONE]"\<close> with
  nothing after it. The JSON of a chunk is printable ASCII throughout, so it holds no
  line feed and no carriage return; and it is compact: the empty list and dictionary are
  \<open>[]\<close> and \<open>{}\<close>, the items of a list are set apart by a comma alone and the entries of
  a dictionary likewise, each one its key as a JSON string, a colon alone, and its value.
\<close>

theorem streaming_frames:
  assumes "(if chat then chat_completions_create c (PDict kw) (service w)
            else completions_create c (PDict kw) (service w)) = (Inr resp, s')"
    and "map_of kw ''stream'' = Some st" and "truthy st"
    and "resp_iter resp = map Chunk ds"
  shows "fst (handle_chat_or_completion_request c (PDict kw) chat w) =
           (map (\<lambda>d. PStr (''data: '' @ json_dumps d @ [CHR 0x0A, CHR 0x0A])) ds
              @ [PStr ''data: [DONE]''], None)
         \<and> length (fst (fst (handle_chat_or_completion_request c (PDict kw) chat w))) =
             length ds + 1
         \<and> (\<forall>d \<in> set ds. \<forall>ch \<in> set (json_dumps d). printable ch)
         \<and> (\<forall>d \<in> set ds. CHR 0x0A \<notin> set (json_dumps d) \<and> CHR 0x0D \<notin> set (json_dumps d))
         \<and> json_dumps (PList []) = ''[]'' \<and> json_dumps (PDict []) = ''{}''
         \<and> (\<forall>x xs. json_dumps (PList (x # xs)) =
               ''['' @ json_dumps x @ concat (map (\<lambda>y. '','' @ json_dumps y) xs) @ '']'')
         \<and> (\<forall>k x kvs. json_dumps (PDict ((k, x) # kvs)) =
               ''{'' @ json_dumps (PStr k) @ '':'' @ json_dumps x
                 @ concat (map (\<lambda>(k', y). '','' @ json_dumps (PStr k') @ '':'' @ json_dumps y) kvs)
                 @ ''}'')"
proof -
  have "fst (handle_chat_or_completion_request c (PDict kw) chat w) =
      (map frame ds @ [PStr ''data: [DONE]''], None)"
    using handle_request_stream [OF assms(1-3)] assms(4) by (simp add: stream_units_chunks)
  moreover have "map frame ds = map (\<lambda>d. PStr (''data: '' @ json_dumps d @ [CHR 0x0A, CHR 0x0A])) ds"
    by (simp add: frame_def)
  moreover have "join sep (x # xs) = x @ concat (map (\<lambda>y. sep @ y) xs)" for sep x xs
    by (induction xs arbitrary: x) simp_all
  ultimately show ?thesis
    using json_dumps_no_line_break json_dumps_printable
    by (simp add: comp_def case_prod_unfold)
qed

theorem streaming_frames_witness:
  \<open>fst (handle_chat_or_completion_request rich_client
          (PDict [(''model'', PStr ''m1''), (''prompt'', PStr ''hi''), (''stream'', PBool True)])
          False (start 0)) =
     ([PStr (''data: {"id":"c1","choices":[{"index":0,"text":"h'' @ [CHR 0x5C] @ ''u00e9 ''
             @ [CHR 0x5C] @ ''"'' @ [CHR 0x5C] @ ''u20ac'' @ [CHR 0x5C] @ ''"'' @ [CHR 0x5C]
             @ ''n'' @ [CHR 0x5C] @ ''ud83d'' @ [CHR 0x5C]
             @ ''ude00","logprob":-0.25,"finish_reason":null}],"done":false}''
             @ [CHR 0x0A, CHR 0x0A]),
       PStr (''data: {"nums":[-42,100.0,1e-05,1.5e+17,NaN,-Infinity],''
             @ ''"empty":[],"none":{},"done":true}'' @ [CHR 0x0A, CHR 0x0A]),
       PStr ''data: [DONE]''], None)\<close>
proof -
  have "fst (handle_chat_or_completion_request rich_client
          (PDict [(''model'', PStr ''m1''), (''prompt'', PStr ''hi''), (''stream'', PBool True)])
          False (start 0)) =
     (map (\<lambda>d. PStr (''data: '' @ json_dumps d @ [CHR 0x0A, CHR 0x0A]))
        [rich_chunk1, rich_chunk2] @ [PStr ''data: [DONE]''], None)"
    using streaming_frames [of False rich_client
        "[(''model'', PStr ''m1''), (''prompt'', PStr ''hi''), (''stream'', PBool True)]"
        "start 0" rich_response 1 "PBool True" "[rich_chunk1, rich_chunk2]"]
    by (simp add: rich_client_def rich_response_def start_def)
  then show ?thesis
    by (simp add: json_dumps_rich_chunk1 json_dumps_rich_chunk2)
qed

text \<open>
  Claim C4: a streaming call whose stream raises after the \<open>k\<close> chunks \<open>ds\<close> yields
  exactly \<open>k + 1\<close> units and raises nothing: the \<open>k\<close> frames of the chunks received,
  in order, then the one unit \<open>{error: message}\<close> of the exception; \<open>"data: [DONE]"\<close>
  is not among the units, and what the stream would have delivered afterwards is not
  read.
\<close>

theorem stream_fault_frames:
  assumes "(if chat then chat_completions_create c (PDict kw) (service w)
            else completions_create c (PDict kw) (service w)) = (Inr resp, s')"
    and "map_of kw ''stream'' = Some st" and "truthy st"
    and "resp_iter resp = map Chunk ds @ Fault e # rest"
  shows "fst (handle_chat_or_completion_request c (PDict kw) chat w) =
           (map (\<lambda>d. PStr (''data: '' @ json_dumps d @ [CHR 0x0A, CHR 0x0A])) ds
              @ [PDict [(''error'', PStr (str_exn e))]], None)
         \<and> length (fst (fst (handle_chat_or_completion_request c (PDict kw) chat w))) =
             length ds + 1
         \<and> PStr ''data: [DONE]'' \<notin>
             set (fst (fst (handle_chat_or_completion_request c (PDict kw) chat w)))"
proof -
  have u: "fst (handle_chat_or_completion_request c (PDict kw) chat w) =
      (map frame ds @ [error_unit e], None)"
    using handle_request_stream [OF assms(1-3)] assms(4) by (simp add: stream_units_fault)
  have f: "map frame ds = map (\<lambda>d. PStr (''data: '' @ json_dumps d @ [CHR 0x0A, CHR 0x0A])) ds"
    by (simp add: frame_def)
  have "PStr ''data: [DONE]'' \<notin> set (map frame ds @ [error_unit e])"
    by (auto simp: error_unit_def frame_not_done frame_not_done [symmetric])
  with u show ?thesis unfolding f [symmetric] by (simp add: error_unit_def)
qed

theorem stream_fault_frames_witness:
  "fst (handle_chat_or_completion_request flaky_client (PDict [(''stream'', PBool True)]) False
         (start 0)) =
     ([PStr (''data: '' @ json_dumps (PDict [(''text'', PStr ''a'')]) @ [CHR 0x0A, CHR 0x0A]),
       PDict [(''error'', PStr ''stream reset'')]], None)"
  using stream_fault_frames [of False flaky_client "[(''stream'', PBool True)]" "start 0"
      broken_response 1 "PBool True" "[PDict [(''text'', PStr ''a'')]]"
      "ClientError ''stream reset''" "[Chunk (PDict [(''text'', PStr ''b'')])]"]
  by (simp add: flaky_client_def broken_response_def start_def)

section \<open>Routing by the shape of the input\<close>

text \<open>
  Once the model is resolved, \<^verbatim>\<open>LlamaCPPEngine.generate\<close> is the OpenAI engine on the job
  it builds, in the world after the model-listing call.
\<close>

lemma LlamaCPPEngine_generate_resolved:
  assumes "models_list c (service w) = (Inr (m # ms), s1)"
  shows "LlamaCPPEngine_generate c ji w =
     LlamaCPPOpenAIEngine_generate c
       (if isinstance_str (llm_input ji) then
          \<lparr>llm_input = PNone, stream = PBool False, openai_route = PStr ''/v1/completions'',
           openai_input = PDict [(''model'', PStr (model_id m)), (''prompt'', llm_input ji),
                                 (''stream'', stream ji)]\<rparr>
        else
          \<lparr>llm_input = PNone, stream = PBool False, openai_route = PStr ''/v1/chat/completions'',
           openai_input = PDict [(''model'', PStr (model_id m)), (''messages'', llm_input ji),
                                 (''stream'', stream ji)]\<rparr>)
       \<lparr>service = s1, calls = calls w @ [Models_list]\<rparr>"
  using assms by (simp add: LlamaCPPEngine_generate_def call_models_list_def JobInput_init_def)

lemma LlamaCPPEngine_generate_calls:
  assumes "models_list c (service w) = (Inr (m # ms), s1)"
  shows "calls (snd (LlamaCPPEngine_generate c ji w)) = calls w @
     [Models_list,
      if isinstance_str (llm_input ji) then
        Completions_create (PDict [(''model'', PStr (model_id m)), (''prompt'', llm_input ji),
                                   (''stream'', stream ji)])
      else
        Chat_completions_create (PDict [(''model'', PStr (model_id m)),
                                        (''messages'', llm_input ji), (''stream'', stream ji)])]"
  by (simp add: LlamaCPPEngine_generate_resolved [OF assms] LlamaCPPOpenAIEngine_generate_def
      handle_chat_or_completion_request_calls)

lemma isinstance_str_iff: "isinstance_str v \<longleftrightarrow> (\<exists>s. v = PStr s)"
  by (cases v) simp_all

text \<open>
  Claim C5: for a job routed by shape whose model resolves to the first listed model \<open>m\<close>:
  if \<open>llm_input\<close> is a string, the job handed on has the route \<open>"/v1/completions"\<close> and
  the payload \<open>{model: m.id, prompt: llm_input, stream: stream}\<close>, and the completion
  call is made on the client with exactly that payload; if \<open>llm_input\<close> is a list, the
  route is \<open>"/v1/chat/completions"\<close>, the payload is
  \<open>{model: m.id, messages: llm_input, stream: stream}\<close>, and the chat call is made with
  it. In both, \<open>stream\<close> is the stream flag of the job.
\<close>

theorem shape_routing:
  assumes "models_list c (service w) = (Inr (m # ms), s1)"
  shows "(llm_input ji = PStr s \<longrightarrow>
            LlamaCPPEngine_generate c ji w =
              LlamaCPPOpenAIEngine_generate c
                \<lparr>llm_input = PNone, stream = PBool False, openai_route = PStr ''/v1/completions'',
                 openai_input = PDict [(''model'', PStr (model_id m)), (''prompt'', PStr s),
                                       (''stream'', stream ji)]\<rparr>
                \<lparr>service = s1, calls = calls w @ [Models_list]\<rparr>
            \<and> calls (snd (LlamaCPPEngine_generate c ji w)) = calls w @
                [Models_list,
                 Completions_create (PDict [(''model'', PStr (model_id m)), (''prompt'', PStr s),
                                            (''stream'', stream ji)])])
       \<and> (llm_input ji = PList msgs \<longrightarrow>
            LlamaCPPEngine_generate c ji w =
              LlamaCPPOpenAIEngine_generate c
                \<lparr>llm_input = PNone, stream = PBool False,
                 openai_route = PStr ''/v1/chat/completions'',
                 openai_input = PDict [(''model'', PStr (model_id m)), (''messages'', PList msgs),
                                       (''stream'', stream ji)]\<rparr>
                \<lparr>service = s1, calls = calls w @ [Models_list]\<rparr>
            \<and> calls (snd (LlamaCPPEngine_generate c ji w)) = calls w @
                [Models_list,
                 Chat_completions_create (PDict [(''model'', PStr (model_id m)),
                                                 (''messages'', PList msgs),
                                                 (''stream'', stream ji)])])"
  by (simp add: LlamaCPPEngine_generate_resolved [OF assms] LlamaCPPOpenAIEngine_generate_def
      handle_chat_or_completion_request_calls)

theorem shape_routing_witness:
  "calls (snd (LlamaCPPEngine_generate fixed_client
      \<lparr>llm_input = PStr ''hi'', stream = PBool True, openai_route = PNone, openai_input = PNone\<rparr>
      (start 0))) =
     [Models_list,
      Completions_create (PDict [(''model'', PStr ''m1''), (''prompt'', PStr ''hi''),
                                 (''stream'', PBool True)])]
   \<and> calls (snd (LlamaCPPEngine_generate fixed_client
      \<lparr>llm_input = PList [PDict [(''role'', PStr ''user''), (''content'', PStr ''hi'')]],
       stream = PBool False, openai_route = PNone, openai_input = PNone\<rparr>
      (start 0))) =
     [Models_list,
      Chat_completions_create
        (PDict [(''model'', PStr ''m1''),
                (''messages'', PList [PDict [(''role'', PStr ''user''), (''content'', PStr ''hi'')]]),
                (''stream'', PBool False)])]"
proof -
  have r: "models_list fixed_client (service (start 0)) =
      (Inr (mock_model ''m1'' # [mock_model ''m2'']), 1)"
    by (simp add: fixed_client_def start_def)
  have 1: "calls (snd (LlamaCPPEngine_generate fixed_client
      \<lparr>llm_input = PStr ''hi'', stream = PBool True, openai_route = PNone, openai_input = PNone\<rparr>
      (start 0))) = calls (start (0::nat)) @
     [Models_list,
      Completions_create (PDict [(''model'', PStr (model_id (mock_model ''m1''))),
        (''prompt'', PStr ''hi''),
        (''stream'', stream \<lparr>llm_input = PStr ''hi'', stream = PBool True, openai_route = PNone,
                              openai_input = PNone\<rparr>)])]"
    by (rule shape_routing [OF r, THEN conjunct1, THEN mp, THEN conjunct2]) simp
  have 2: "calls (snd (LlamaCPPEngine_generate fixed_client
      \<lparr>llm_input = PList [PDict [(''role'', PStr ''user''), (''content'', PStr ''hi'')]],
       stream = PBool False, openai_route = PNone, openai_input = PNone\<rparr>
      (start 0))) = calls (start (0::nat)) @
     [Models_list,
      Chat_completions_create (PDict [(''model'', PStr (model_id (mock_model ''m1''))),
        (''messages'', PList [PDict [(''role'', PStr ''user''), (''content'', PStr ''hi'')]]),
        (''stream'', stream \<lparr>llm_input = PList [PDict [(''role'', PStr ''user''),
                                                         (''content'', PStr ''hi'')]],
                              stream = PBool False, openai_route = PNone,
                              openai_input = PNone\<rparr>)])]"
    by (rule shape_routing [OF r, THEN conjunct2, THEN mp, THEN conjunct2]) simp
  show ?thesis
    unfolding 1 2 by (simp add: start_def mock_model_def)
qed

text \<open>
  Claim C9: for a job routed by shape whose model resolves, every \<open>llm_input\<close> that is
  not a string takes the chat branch: the route is \<open>"/v1/chat/completions"\<close> and
  \<open>messages\<close> is that value. The completion call is made exactly when \<open>llm_input\<close> is a
  string, so there is no third branch. A raw map with neither \<open>messages\<close> nor \<open>prompt\<close>
  is normalized to \<open>llm_input = None\<close> and sent to the chat route with
  \<open>messages = None\<close>.
\<close>

theorem non_string_goes_to_chat:
  assumes "models_list c (service w) = (Inr (m # ms), s1)"
  shows "((\<forall>s. llm_input ji \<noteq> PStr s) \<longrightarrow>
            LlamaCPPEngine_generate c ji w =
              LlamaCPPOpenAIEngine_generate c
                \<lparr>llm_input = PNone, stream = PBool False,
                 openai_route = PStr ''/v1/chat/completions'',
                 openai_input = PDict [(''model'', PStr (model_id m)),
                                       (''messages'', llm_input ji), (''stream'', stream ji)]\<rparr>
                \<lparr>service = s1, calls = calls w @ [Models_list]\<rparr>
            \<and> calls (snd (LlamaCPPEngine_generate c ji w)) = calls w @
                [Models_list,
                 Chat_completions_create (PDict [(''model'', PStr (model_id m)),
                                                 (''messages'', llm_input ji),
                                                 (''stream'', stream ji)])])
       \<and> ((\<exists>p. last (calls (snd (LlamaCPPEngine_generate c ji w))) = Completions_create p)
            \<longleftrightarrow> (\<exists>s. llm_input ji = PStr s))
       \<and> (map_of kvs ''messages'' = None \<and> map_of kvs ''prompt'' = None \<longrightarrow>
            (\<exists>ji0. JobInput_init (PDict kvs) = Inr ji0 \<and> llm_input ji0 = PNone
               \<and> calls (snd (LlamaCPPEngine_generate c ji0 w)) = calls w @
                   [Models_list,
                    Chat_completions_create (PDict [(''model'', PStr (model_id m)),
                                                    (''messages'', PNone),
                                                    (''stream'', stream ji0)])]))"
proof (intro conjI impI)
  assume a: "\<forall>s. llm_input ji \<noteq> PStr s"
  then have n: "\<not> isinstance_str (llm_input ji)" by (simp add: isinstance_str_iff)
  show "LlamaCPPEngine_generate c ji w =
              LlamaCPPOpenAIEngine_generate c
                \<lparr>llm_input = PNone, stream = PBool False,
                 openai_route = PStr ''/v1/chat/completions'',
                 openai_input = PDict [(''model'', PStr (model_id m)),
                                       (''messages'', llm_input ji), (''stream'', stream ji)]\<rparr>
                \<lparr>service = s1, calls = calls w @ [Models_list]\<rparr>"
    using n by (simp add: LlamaCPPEngine_generate_resolved [OF assms])
  show "calls (snd (LlamaCPPEngine_generate c ji w)) = calls w @
                [Models_list,
                 Chat_completions_create (PDict [(''model'', PStr (model_id m)),
                                                 (''messages'', llm_input ji),
                                                 (''stream'', stream ji)])]"
    using n by (simp add: LlamaCPPEngine_generate_calls [OF assms])
next
  show "(\<exists>p. last (calls (snd (LlamaCPPEngine_generate c ji w))) = Completions_create p)
            \<longleftrightarrow> (\<exists>s. llm_input ji = PStr s)"
    by (simp add: LlamaCPPEngine_generate_calls [OF assms] isinstance_str_iff)
next
  assume "map_of kvs ''messages'' = None \<and> map_of kvs ''prompt'' = None"
  then show "\<exists>ji0. JobInput_init (PDict kvs) = Inr ji0 \<and> llm_input ji0 = PNone
               \<and> calls (snd (LlamaCPPEngine_generate c ji0 w)) = calls w @
                   [Models_list,
                    Chat_completions_create (PDict [(''model'', PStr (model_id m)),
                                                    (''messages'', PNone),
                                                    (''stream'', stream ji0)])]"
    by (simp add: JobInput_init_PDict LlamaCPPEngine_generate_calls [OF assms])
qed

theorem non_string_goes_to_chat_witness:
  "calls (snd (LlamaCPPEngine_generate fixed_client
      \<lparr>llm_input = PInt 7, stream = PBool False, openai_route = PNone, openai_input = PNone\<rparr>
      (start 0))) =
     [Models_list,
      Chat_completions_create (PDict [(''model'', PStr ''m1''), (''messages'', PInt 7),
                                      (''stream'', PBool False)])]
   \<and> (\<exists>ji0. JobInput_init (PDict [(''stream'', PBool True)]) = Inr ji0 \<and> llm_input ji0 = PNone
        \<and> calls (snd (LlamaCPPEngine_generate fixed_client ji0 (start 0))) =
            [Models_list,
             Chat_completions_create (PDict [(''model'', PStr ''m1''), (''messages'', PNone),
                                             (''stream'', stream ji0)])])"
proof -
  have r: "models_list fixed_client (service (start 0)) =
      (Inr (mock_model ''m1'' # [mock_model ''m2'']), 1)"
    by (simp add: fixed_client_def start_def)
  have 1: "calls (snd (LlamaCPPEngine_generate fixed_client
      \<lparr>llm_input = PInt 7, stream = PBool False, openai_route = PNone, openai_input = PNone\<rparr>
      (start 0))) = calls (start (0::nat)) @
     [Models_list,
      Chat_completions_create (PDict [(''model'', PStr (model_id (mock_model ''m1''))),
        (''messages'', llm_input \<lparr>llm_input = PInt 7, stream = PBool False,
                                   openai_route = PNone, openai_input = PNone\<rparr>),
        (''stream'', stream \<lparr>llm_input = PInt 7, stream = PBool False, openai_route = PNone,
                              openai_input = PNone\<rparr>)])]"
    by (rule non_string_goes_to_chat [OF r, THEN conjunct1, THEN mp, THEN conjunct2]) simp
  have 2: "\<exists>ji0. JobInput_init (PDict [(''stream'', PBool True)]) = Inr ji0 \<and> llm_input ji0 = PNone
        \<and> calls (snd (LlamaCPPEngine_generate fixed_client ji0 (start 0))) = calls (start (0::nat)) @
            [Models_list,
             Chat_completions_create (PDict [(''model'', PStr (model_id (mock_model ''m1''))),
                                             (''messages'', PNone), (''stream'', stream ji0)])]"
    by (rule non_string_goes_to_chat [OF r, THEN conjunct2, THEN conjunct2, THEN mp]) simp
  show ?thesis
    using 1 2 by (simp add: start_def mock_model_def)
qed

text \<open>
  Claim C6: the model of the payload is the id of the first model that the model-listing
  call of this very run returns, and nothing is kept from one run to the next: of two
  runs of \<^verbatim>\<open>generate\<close>, one after the other, each makes its own model-listing call before
  its completion or chat call, and each payload carries the first model listed at that
  moment (\<open>m\<close> in the first run, \<open>m'\<close> in the second).
\<close>

theorem model_resolved_on_every_call:
  assumes "models_list c (service w) = (Inr (m # ms), s1)"
    and "w' = snd (LlamaCPPEngine_generate c ji w)"
    and "models_list c (service w') = (Inr (m' # ms'), s2)"
  shows "\<exists>k p k' p'.
           calls (snd (LlamaCPPEngine_generate c ji' w')) =
             calls w @ [Models_list, k p, Models_list, k' p']
           \<and> (k = Completions_create \<or> k = Chat_completions_create)
           \<and> (k' = Completions_create \<or> k' = Chat_completions_create)
           \<and> py_get p ''model'' PNone = Inr (PStr (model_id m))
           \<and> py_get p' ''model'' PNone = Inr (PStr (model_id m'))"
proof -
  have 1: "calls w' = calls w @
     [Models_list,
      if isinstance_str (llm_input ji) then
        Completions_create (PDict [(''model'', PStr (model_id m)), (''prompt'', llm_input ji),
                                   (''stream'', stream ji)])
      else
        Chat_completions_create (PDict [(''model'', PStr (model_id m)),
                                        (''messages'', llm_input ji), (''stream'', stream ji)])]"
    unfolding assms(2) by (rule LlamaCPPEngine_generate_calls [OF assms(1)])
  have 2: "calls (snd (LlamaCPPEngine_generate c ji' w')) = calls w' @
     [Models_list,
      if isinstance_str (llm_input ji') then
        Completions_create (PDict [(''model'', PStr (model_id m')), (''prompt'', llm_input ji'),
                                   (''stream'', stream ji')])
      else
        Chat_completions_create (PDict [(''model'', PStr (model_id m')),
                                        (''messages'', llm_input ji'), (''stream'', stream ji')])]"
    by (rule LlamaCPPEngine_generate_calls [OF assms(3)])
  show ?thesis
    unfolding 2 1
    by (cases "isinstance_str (llm_input ji)"; cases "isinstance_str (llm_input ji')") fastforce+
qed


theorem model_resolved_on_every_call_witness:
  "\<exists>k p k' p'.
     calls (snd (LlamaCPPEngine_generate rolling_client
        \<lparr>llm_input = PStr ''hi'', stream = PBool False, openai_route = PNone,
         openai_input = PNone\<rparr>
        (snd (LlamaCPPEngine_generate rolling_client
          \<lparr>llm_input = PStr ''hi'', stream = PBool False, openai_route = PNone,
           openai_input = PNone\<rparr> (start 0))))) =
       [Models_list, k p, Models_list, k' p']
     \<and> (k = Completions_create \<or> k = Chat_completions_create)
     \<and> (k' = Completions_create \<or> k' = Chat_completions_create)
     \<and> py_get p ''model'' PNone = Inr (PStr ''alpha'')
     \<and> py_get p' ''model'' PNone = Inr (PStr ''beta'')"
proof -
  have r1: "models_list rolling_client (service (start 0)) =
      (Inr (mock_model ''alpha'' # []), 1)"
    by (simp add: rolling_client_def start_def)
  have r2: "models_list rolling_client
      (service (snd (LlamaCPPEngine_generate rolling_client
          \<lparr>llm_input = PStr ''hi'', stream = PBool False, openai_route = PNone,
           openai_input = PNone\<rparr> (start 0)))) =
      (Inr (mock_model ''beta'' # []), 3)"
    by (simp add: LlamaCPPEngine_generate_def LlamaCPPOpenAIEngine_generate_def
        handle_chat_or_completion_request_def JobInput_init_def client_call_defs
        rolling_client_def mock_response_def start_def)
  show ?thesis
    using model_resolved_on_every_call [OF r1 refl r2,
        of "\<lparr>llm_input = PStr ''hi'', stream = PBool False, openai_route = PNone,
           openai_input = PNone\<rparr>"]
    by (simp add: start_def mock_model_def)
qed

section \<open>Running a job twice\<close>

text \<open>
  What a generator yields depends on the world only through what the client returns.
\<close>

lemma handle_model_request_fst:
  assumes "fst (models_list c (service w)) = fst (models_list c (service w'))"
  shows "fst (handle_model_request c w) = fst (handle_model_request c w')"
  using assms
  by (auto simp: handle_model_request_def call_models_list_def split: prod.splits sum.splits)

lemma handle_chat_or_completion_request_fst:
  assumes "fst (completions_create c p (service w)) = fst (completions_create c p (service w'))"
    and "fst (chat_completions_create c p (service w)) =
         fst (chat_completions_create c p (service w'))"
  shows "fst (handle_chat_or_completion_request c p chat w) =
         fst (handle_chat_or_completion_request c p chat w')"
  using assms
  by (auto simp: handle_chat_or_completion_request_def client_call_defs
      split: prod.splits sum.splits)

lemma LlamaCPPOpenAIEngine_generate_fst:
  assumes "\<forall>s s'. fst (models_list c s) = fst (models_list c s')"
    and "\<forall>kw s s'. fst (completions_create c kw s) = fst (completions_create c kw s')"
    and "\<forall>kw s s'. fst (chat_completions_create c kw s) = fst (chat_completions_create c kw s')"
  shows "fst (LlamaCPPOpenAIEngine_generate c ji w) = fst (LlamaCPPOpenAIEngine_generate c ji w')"
  using assms handle_model_request_fst [of c w w']
    handle_chat_or_completion_request_fst [of c "openai_input ji" w w']
  by (simp add: LlamaCPPOpenAIEngine_generate_def)

lemma LlamaCPPEngine_generate_fst:
  assumes "\<forall>s s'. fst (models_list c s) = fst (models_list c s')"
    and "\<forall>kw s s'. fst (completions_create c kw s) = fst (completions_create c kw s')"
    and "\<forall>kw s s'. fst (chat_completions_create c kw s) = fst (chat_completions_create c kw s')"
  shows "fst (LlamaCPPEngine_generate c ji w) = fst (LlamaCPPEngine_generate c ji w')"
proof -
  obtain r s1 where a: "models_list c (service w) = (r, s1)" by (cases "models_list c (service w)")
  obtain r' s1' where b: "models_list c (service w') = (r', s1')"
    by (cases "models_list c (service w')")
  have rr: "r' = r" using assms(1) a b by (metis fst_conv)
  show ?thesis
  proof (cases r)
    case (Inl e)
    then show ?thesis using a b rr
      by (simp add: LlamaCPPEngine_generate_def call_models_list_def)
  next
    case (Inr ms)
    show ?thesis
    proof (cases ms)
      case Nil
      then show ?thesis using a b rr Inr
        by (simp add: LlamaCPPEngine_generate_def call_models_list_def)
    next
      case (Cons m ms')
      have a': "models_list c (service w) = (Inr (m # ms'), s1)" using a Inr Cons by simp
      have b': "models_list c (service w') = (Inr (m # ms'), s1')" using b rr Inr Cons by simp
      show ?thesis
        unfolding LlamaCPPEngine_generate_resolved [OF a'] LlamaCPPEngine_generate_resolved [OF b']
        by (rule LlamaCPPOpenAIEngine_generate_fst [OF assms])
    qed
  qed
qed

text \<open>
  Claim C10: against a client whose answers do not depend on the state of the service
  (the same model list, the same responses and chunks on every call), running the
  handler on a job a second time, after the first run, gives the same outcome as the
  first run: the same units in the same order, and the same exception if one escapes.
\<close>

theorem handler_repeatable:
  assumes "\<forall>s s'. fst (models_list c s) = fst (models_list c s')"
    and "\<forall>kw s s'. fst (completions_create c kw s) = fst (completions_create c kw s')"
    and "\<forall>kw s s'. fst (chat_completions_create c kw s) = fst (chat_completions_create c kw s')"
  shows "fst (handler c job (snd (handler c job w))) = fst (handler c job w)"
proof -
  have "fst (handler c job w') = fst (handler c job w)" for w'
    using LlamaCPPOpenAIEngine_generate_fst [OF assms, of _ w' w]
      LlamaCPPEngine_generate_fst [OF assms, of _ w' w]
    by (simp add: handler_def split: option.splits sum.splits)
  then show ?thesis .
qed

theorem handler_repeatable_witness:
  "fst (handler fixed_client
         [(''input'', PDict [(''prompt'', PStr ''hi''), (''stream'', PBool True)])]
         (snd (handler fixed_client
           [(''input'', PDict [(''prompt'', PStr ''hi''), (''stream'', PBool True)])]
           (start 0)))) =
   fst (handler fixed_client
         [(''input'', PDict [(''prompt'', PStr ''hi''), (''stream'', PBool True)])] (start 0))"
  using handler_repeatable [of fixed_client
      "[(''input'', PDict [(''prompt'', PStr ''hi''), (''stream'', PBool True)])]" "start 0"]
  by (simp add: fixed_client_def)

end
